theory Spec2Isabelle
  imports Complex_Main "HOL-Library.AList"
begin

section \<open>Python values, exceptions and decimals\<close>

text \<open>
  The connector \<^verbatim>\<open>loopring_market.pyx\<close> exchanges JSON with the exchange and keeps
  its tables in Python dicts. A Python value that can occur in a request, a response or a
  push message is a \<open>json\<close>; a dict whose order matters is an association list, a dict
  that is only looked up is a map. Dict keys are compared structurally. JSON numbers
  are integers here: the exchange sends amounts and prices as strings.
\<close>

datatype json =
    JNull
  | JBool bool
  | JInt int
  | JStr string
  | JList "json list"
  | JObj "(string \<times> json) list"

type_synonym pydict = "(string \<times> json) list"

datatype trade_type = BUY | SELL

datatype order_type = MARKET | LIMIT

text \<open>
  A finite \<^verbatim>\<open>decimal.Decimal\<close>: sign, coefficient and exponent, the value being
  \<open>\<plusminus> coefficient * 10 ^ exponent\<close>. NaN and the infinities are not modelled, nor are
  the exponent limits (\<open>\<plusminus>999999\<close>) of the default context; its precision of 28 digits is.
\<close>

datatype decimal = Decimal (dsign: bool) (dcoeff: nat) (dexp: int)

datatype value_error =
    LimitNotSupported
  | MarketNotSupported
  | AmountBelowMin decimal decimal
  | AmountAboveMax decimal decimal
  | NotionalBelowMin decimal decimal
  | InvalidLiteral string
  | UnpackError

datatype error =
    TransportError string
  | TypeError
  | AttributeError
  | KeyError string
  | NameError string
  | UnboundLocalError string
  | ValueError value_error
  | InvalidOperation
  | ZeroDivisionError
  | ResponseError json
  | CollaboratorError string

subsection \<open>Decimal arithmetic of the default context\<close>

definition prec :: nat where
  "prec = 28"

fun ndigits :: "nat \<Rightarrow> nat" where
  "ndigits n = (if n < 10 then 1 else Suc (ndigits (n div 10)))"

declare ndigits.simps [simp del]

definition adjusted :: "decimal \<Rightarrow> int" where
  "adjusted d = dexp d + int (ndigits (dcoeff d)) - 1"

text \<open>\<^verbatim>\<open>Decimal._rescale(exp, ROUND_DOWN)\<close>: digits below the new exponent are dropped.\<close>

definition rescale_down :: "decimal \<Rightarrow> int \<Rightarrow> decimal" where
  "rescale_down d e =
     (if dcoeff d = 0 then Decimal (dsign d) 0 e
      else if e \<le> dexp d then Decimal (dsign d) (dcoeff d * 10 ^ nat (dexp d - e)) e
      else Decimal (dsign d) (dcoeff d div 10 ^ nat (e - dexp d)) e)"

text \<open>
  \<^verbatim>\<open>a.quantize(q, rounding=ROUND_DOWN)\<close>: the value of \<open>a\<close> at the exponent of
  \<open>q\<close>; InvalidOperation when the result would need more digits than the precision.
\<close>

definition quantize_down :: "decimal \<Rightarrow> decimal \<Rightarrow> error + decimal" where
  "quantize_down a q =
     (if dcoeff a = 0 then Inr (Decimal (dsign a) 0 (dexp q))
      else if adjusted a - dexp q + 1 > int prec then Inl InvalidOperation
      else let ans = rescale_down a (dexp q)
           in if ndigits (dcoeff ans) > prec then Inl InvalidOperation else Inr ans)"

definition dec_signed :: "decimal \<Rightarrow> int" where
  "dec_signed d = (if dsign d then - int (dcoeff d) else int (dcoeff d))"

text \<open>Comparison is by value: both coefficients are brought to the smaller exponent.\<close>

definition dec_less :: "decimal \<Rightarrow> decimal \<Rightarrow> bool" where
  "dec_less a b =
     (let m = min (dexp a) (dexp b)
      in dec_signed a * 10 ^ nat (dexp a - m) < dec_signed b * 10 ^ nat (dexp b - m))"

text \<open>The context rounds a result of more than 28 digits half-even.\<close>

definition dec_fix :: "bool \<Rightarrow> nat \<Rightarrow> int \<Rightarrow> decimal" where
  "dec_fix s c e =
     (let n = ndigits c
      in if n \<le> prec then Decimal s c e
         else let d = n - prec;
                  q = c div 10 ^ d;
                  r = c mod 10 ^ d;
                  q' = (if 10 ^ d < 2 * r \<or> (2 * r = 10 ^ d \<and> odd q) then q + 1 else q)
              in if ndigits q' > prec then Decimal s (q' div 10) (e + int d + 1)
                 else Decimal s q' (e + int d))"

definition dec_mul :: "decimal \<Rightarrow> decimal \<Rightarrow> decimal" where
  "dec_mul a b = dec_fix (dsign a \<noteq> dsign b) (dcoeff a * dcoeff b) (dexp a + dexp b)"

definition s_decimal_0 :: decimal where
  "s_decimal_0 = Decimal False 0 0"

text \<open>The value of a decimal, to state what rounding means.\<close>

definition dec_val :: "decimal \<Rightarrow> real" where
  "dec_val d = of_int (dec_signed d) * 10 powi dexp d"




subsection \<open>Strings\<close>

fun string_of_nat :: "nat \<Rightarrow> string" where
  "string_of_nat n =
     (if n < 10 then [''0123456789'' ! n]
      else string_of_nat (n div 10) @ [''0123456789'' ! (n mod 10)])"

declare string_of_nat.simps [simp del]

definition string_of_int :: "int \<Rightarrow> string" where
  "string_of_int i = (if i < 0 then CHR ''-'' # string_of_nat (nat (- i)) else string_of_nat (nat i))"

definition digit_val :: "char \<Rightarrow> nat option" where
  "digit_val c =
     (let n = (of_char c :: nat) in if 48 \<le> n \<and> n \<le> 57 then Some (n - 48) else None)"

fun nat_of_digits :: "nat \<Rightarrow> string \<Rightarrow> nat option" where
  "nat_of_digits acc [] = Some acc"
| "nat_of_digits acc (c # cs) =
     (case digit_val c of None \<Rightarrow> None | Some d \<Rightarrow> nat_of_digits (10 * acc + d) cs)"

text \<open>
  \<^verbatim>\<open>int(s)\<close> for a string: an optional sign and decimal digits. (Python also accepts
  surrounding blanks and underscores between digits; the connector produces neither.)
\<close>

definition int_of_string :: "string \<Rightarrow> int option" where
  "int_of_string s =
     (case s of
        [] \<Rightarrow> None
      | c # cs \<Rightarrow>
          if c = CHR ''-'' then (if cs = [] then None else map_option (\<lambda>n. - int n) (nat_of_digits 0 cs))
          else if c = CHR ''+'' then (if cs = [] then None else map_option int (nat_of_digits 0 cs))
          else map_option int (nat_of_digits 0 s))"

definition py_int :: "json \<Rightarrow> error + int" where
  "py_int j =
     (case j of
        JInt i \<Rightarrow> Inr i
      | JBool b \<Rightarrow> Inr (if b then 1 else 0)
      | JStr s \<Rightarrow> (case int_of_string s of None \<Rightarrow> Inl (ValueError (InvalidLiteral s)) | Some i \<Rightarrow> Inr i)
      | _ \<Rightarrow> Inl TypeError)"

definition hashable :: "json \<Rightarrow> bool" where
  "hashable j = (case j of JList _ \<Rightarrow> False | JObj _ \<Rightarrow> False | _ \<Rightarrow> True)"

definition join :: "string \<Rightarrow> string list \<Rightarrow> string" where
  "join sep xs = (case xs of [] \<Rightarrow> [] | y # ys \<Rightarrow> y @ concat (map (\<lambda>z. sep @ z) ys))"

text \<open>\<^verbatim>\<open>urllib.parse.quote(s, safe='')\<close> on the UTF-8 bytes of \<open>s\<close>.\<close>

definition unreserved :: "char \<Rightarrow> bool" where
  "unreserved c \<longleftrightarrow>
     c \<in> set ''ABCDEFGHIJKLMNOPQRSTUVWXYZabcdefghijklmnopqrstuvwxyz0123456789_.-~''"

definition quote_char :: "char \<Rightarrow> string" where
  "quote_char c =
     (if unreserved c then [c]
      else [CHR ''%'', ''0123456789ABCDEF'' ! ((of_char c :: nat) div 16),
            ''0123456789ABCDEF'' ! ((of_char c :: nat) mod 16)])"

definition urllib_quote :: "string \<Rightarrow> string" where
  "urllib_quote s = concat (map quote_char s)"

section \<open>The connector's state and its collaborators\<close>

record trading_rule =
  rule_trading_pair :: json
  min_order_size :: decimal
  max_order_size :: decimal
  min_price_increment :: decimal
  min_base_amount_increment :: decimal
  min_quote_amount_increment :: decimal
  min_notional_size :: decimal
  supports_limit_orders :: bool
  supports_market_orders :: bool

record in_flight_order =
  ifo_client_order_id :: string
  exchange_order_id :: json
  ifo_trading_pair :: string
  ifo_order_type :: order_type
  ifo_trade_type :: trade_type
  base_asset :: string
  quote_asset :: string
  fee_asset :: "string option"
  executed_amount_base :: decimal
  executed_amount_quote :: decimal
  fee_paid :: decimal
  is_done :: bool
  is_failure :: bool
  is_cancelled :: bool

datatype market_event =
    MEOrderCancelled
  | MEOrderFilled
  | MEOrderExpired
  | MEOrderFailure
  | MEOther

datatype event =
    MarketOrderFailureEvent int string order_type
  | OrderCancelledEvent int string
  | OrderExpiredEvent int string
  | OrderFilledEvent int string string trade_type order_type decimal decimal string decimal
  | BuyOrderCreatedEvent int order_type string decimal decimal string
  | SellOrderCreatedEvent int order_type string decimal decimal string
  | BuyOrderCompletedEvent int in_flight_order
  | SellOrderCompletedEvent int in_flight_order

record http_request =
  req_method :: string
  req_url :: string
  req_params :: "pydict option"
  req_body :: "pydict option"
  req_headers :: "(string \<times> string) list"

datatype http_outcome =
    HttpRaises string
  | HttpResponse int json

datatype call =
    HttpCall http_request
  | Sha256Call string
  | PoseidonCall "int list"
  | SignCall int int

datatype log_entry =
    LogException error
  | LogNextOrderIdError
  | LogApiIssue string string
  | LogCreated in_flight_order string decimal string
  | LogSubmitError trade_type order_type decimal string decimal
  | LogCancelSuccess string
  | LogCancelFailed string
  | LogUnrecognizedOrder json
  | LogEventDump string
  | LogUnrecognizedTopic json
  | LogListenerError error
  | LogRulesError error
  | LogCompleted trade_type string
  | LogFailed string

text \<open>
  What the connector consumes from outside this file: the HTTP transport (its answer may
  depend on how many requests were made before; a POST body stands for its JSON dump), the
  API-key header, SHA-256 (the digest read as a number), the Poseidon hash with the
  order-signing parameters, the EdDSA signer, the scalar field modulus
  \<^verbatim>\<open>SNARK_SCALAR_FIELD\<close>, the clock, \<^verbatim>\<open>str()\<close> of a list or dict, the token
  configuration, the in-flight order class and the JSON parser.
\<close>

record env =
  http :: "nat \<Rightarrow> http_request \<Rightarrow> http_outcome"
  generate_auth_dict :: "(string \<times> string) list"
  sha256 :: "string \<Rightarrow> nat"
  poseidon :: "int list \<Rightarrow> int"
  eddsa_sign :: "int \<Rightarrow> int \<Rightarrow> int \<times> int \<times> int"
  SNARK_SCALAR_FIELD :: int
  time_time :: int
  py_repr :: "json \<Rightarrow> string"
  get_tokenid :: "string \<Rightarrow> error + json"
  sell_buy_amounts :: "json \<Rightarrow> json \<Rightarrow> decimal \<Rightarrow> decimal \<Rightarrow> trade_type \<Rightarrow> error + pydict"
  unpad :: "json \<Rightarrow> json \<Rightarrow> error + decimal"
  from_loopring_order ::
    "trade_type \<Rightarrow> string \<Rightarrow> int \<Rightarrow> json \<Rightarrow> string \<Rightarrow> decimal \<Rightarrow> decimal \<Rightarrow> error + in_flight_order"
  order_update ::
    "in_flight_order \<Rightarrow> json \<Rightarrow> error + in_flight_order \<times> (market_event \<times> decimal \<times> decimal \<times> decimal) list"
  parse_json :: "string \<Rightarrow> error + json"

text \<open>
  The fields of \<^verbatim>\<open>LoopringMarket\<close> the modelled methods use, and three traces of what
  they do to the outside: the events given to \<^verbatim>\<open>c_trigger_event\<close>, the calls to the
  transport, the hash functions and the signer, and the logger's entries, each in order.
\<close>

record market =
  loopring_accountid :: int
  loopring_exchangeid :: int
  loopring_private_key :: string
  trading_rules :: "json \<rightharpoonup> trading_rule"
  in_flight_orders :: "(string \<times> in_flight_order) list"
  next_order_id :: "json \<rightharpoonup> json"
  current_timestamp :: int
  default_headers :: "(string \<times> string) list"
  events :: "event list"
  calls :: "call list"
  log :: "log_entry list"

text \<open>The state \<^verbatim>\<open>__init__\<close> builds.\<close>

definition init_market :: "int \<Rightarrow> int \<Rightarrow> string \<Rightarrow> market" where
  "init_market accountid exchangeid private_key =
     \<lparr>loopring_accountid = accountid, loopring_exchangeid = exchangeid,
      loopring_private_key = private_key, trading_rules = Map.empty, in_flight_orders = [],
      next_order_id = Map.empty, current_timestamp = 0, default_headers = [], events = [],
      calls = [], log = []\<rparr>"

definition now :: "env \<Rightarrow> int" where
  "now env = time_time env * 1000"

definition API_REST_ENDPOINT :: string where
  "API_REST_ENDPOINT = ''https://api.loopring.io/''"

definition NEXT_ORDER_ID :: string where
  "NEXT_ORDER_ID = ''api/v2/orderId''"

definition ORDER_ROUTE :: string where
  "ORDER_ROUTE = ''api/v2/order''"

definition ORDER_CANCEL_ROUTE :: string where
  "ORDER_CANCEL_ROUTE = ''api/v2/orders''"



definition py_str :: "env \<Rightarrow> json \<Rightarrow> string" where
  "py_str env j =
     (case j of
        JNull \<Rightarrow> ''None''
      | JBool b \<Rightarrow> (if b then ''True'' else ''False'')
      | JInt i \<Rightarrow> string_of_int i
      | JStr s \<Rightarrow> s
      | _ \<Rightarrow> py_repr env j)"

definition add_log :: "log_entry \<Rightarrow> market \<Rightarrow> market" where
  "add_log l st = st\<lparr>log := log st @ [l]\<rparr>"

definition add_call :: "call \<Rightarrow> market \<Rightarrow> market" where
  "add_call c st = st\<lparr>calls := calls st @ [c]\<rparr>"

definition c_trigger_event :: "event \<Rightarrow> market \<Rightarrow> market" where
  "c_trigger_event ev st = st\<lparr>events := events st @ [ev]\<rparr>"

definition getitem :: "json \<Rightarrow> string \<Rightarrow> error + json" where
  "getitem j k =
     (case j of
        JObj kvs \<Rightarrow> (case map_of kvs k of None \<Rightarrow> Inl (KeyError k) | Some v \<Rightarrow> Inr v)
      | _ \<Rightarrow> Inl TypeError)"

section \<open>Signed requests\<close>

definition encode_request :: "env \<Rightarrow> string \<Rightarrow> string \<Rightarrow> pydict \<Rightarrow> string" where
  "encode_request env url method params =
     (let url' = urllib_quote url;
          data = urllib_quote (join ''&'' (map (\<lambda>(k, v). k @ ''='' @ py_str env v) params))
      in join ''&'' [method, url', data])"

text \<open>\<^verbatim>\<open>d.update(new)\<close>: a present key keeps its place, a new key goes last.\<close>

definition dict_updates :: "('k \<times> 'v) list \<Rightarrow> ('k \<times> 'v) list \<Rightarrow> ('k \<times> 'v) list" where
  "dict_updates new d = foldl (\<lambda>acc (k, v). AList.update k v acc) d new"

definition http_count :: "market \<Rightarrow> nat" where
  "http_count st = length (filter (\<lambda>c. case c of HttpCall _ \<Rightarrow> True | _ \<Rightarrow> False) (calls st))"

text \<open>
  \<^verbatim>\<open>api_request\<close>. No caller passes \<^verbatim>\<open>headers\<close>, so the headers are the default
  argument, one dict shared by all calls, unless a POST body replaces them. On a status
  other than 200 the source awaits the method \<^verbatim>\<open>response.text\<close> itself, which raises
  TypeError before the IOError is reached.
\<close>

definition send_request ::
  "env \<Rightarrow> market \<Rightarrow> string \<Rightarrow> string \<Rightarrow> pydict option \<Rightarrow> pydict option
     \<Rightarrow> (string \<times> string) list \<Rightarrow> (error + json) \<times> market" where
  "send_request env st http_method url data params headers =
     (let req = \<lparr>req_method = http_method, req_url = API_REST_ENDPOINT @ url, req_params = params,
                 req_body = data, req_headers = headers\<rparr>;
          st1 = add_call (HttpCall req) st
      in case http env (http_count st) req of
           HttpRaises m \<Rightarrow> (Inl (TransportError m), st1)
         | HttpResponse status body \<Rightarrow>
             (if status \<noteq> 200 then (Inl TypeError, add_log (LogApiIssue http_method url) st1)
              else (Inr body, st1)))"

definition sign_request ::
  "env \<Rightarrow> market \<Rightarrow> string \<Rightarrow> string \<Rightarrow> pydict option \<Rightarrow> (error + string) \<times> market" where
  "sign_request env st http_method url params =
     (case params of
        None \<Rightarrow> (Inl AttributeError, st)
      | Some ps \<Rightarrow>
          (let ordered_data = encode_request env (API_REST_ENDPOINT @ url) http_method ps;
               msgHash = int (sha256 env ordered_data) mod SNARK_SCALAR_FIELD env;
               st1 = add_call (Sha256Call ordered_data) st
           in if SNARK_SCALAR_FIELD env = 0 then (Inl ZeroDivisionError, st1)
              else (case int_of_string (loopring_private_key st) of
                      None \<Rightarrow> (Inl (ValueError (InvalidLiteral (loopring_private_key st))), st1)
                    | Some key \<Rightarrow>
                        (case eddsa_sign env msgHash key of
                           (rx, ry, s) \<Rightarrow>
                             (Inr (join '','' [string_of_int rx, string_of_int ry, string_of_int s]),
                              add_call (SignCall msgHash key) st1)))))"

definition api_request ::
  "env \<Rightarrow> market \<Rightarrow> string \<Rightarrow> string \<Rightarrow> pydict option \<Rightarrow> pydict option \<Rightarrow> bool
     \<Rightarrow> (error + json) \<times> market" where
  "api_request env st http_method url data params secure =
     (let post = (data \<noteq> None \<and> http_method = ''POST'');
          headers1 = dict_updates (generate_auth_dict env)
                       (if post then [(''Content-Type'', ''application/json'')] else default_headers st);
          st1 = (if post then st else st\<lparr>default_headers := headers1\<rparr>)
      in if secure then
           (case sign_request env st1 http_method url params of
              (Inl e, st2) \<Rightarrow> (Inl e, st2)
            | (Inr signature, st2) \<Rightarrow>
                (let headers2 = AList.update ''X-API-SIG'' signature headers1;
                     st3 = (if post then st2 else st2\<lparr>default_headers := headers2\<rparr>)
                 in send_request env st3 http_method url data params headers2))
         else send_request env st1 http_method url data params headers1)"

section \<open>The nonce allocator\<close>

text \<open>
  \<^verbatim>\<open>_get_next_order_id\<close>. The whole body runs under \<^verbatim>\<open>_order_id_lock\<close>, so calls
  are serialised: one call is a function from the state before to the state after. When
  the remote query raises, the handler logs and falls through to \<^verbatim>\<open>return next_id\<close>
  with \<^verbatim>\<open>next_id\<close> never assigned.
\<close>

definition py_add1 :: "json \<Rightarrow> error + json" where
  "py_add1 j =
     (case j of
        JInt i \<Rightarrow> Inr (JInt (i + 1))
      | JBool b \<Rightarrow> Inr (JInt ((if b then 1 else 0) + 1))
      | _ \<Rightarrow> Inl TypeError)"

definition counter_is_none :: "market \<Rightarrow> json \<Rightarrow> bool" where
  "counter_is_none st token = (next_order_id st token = None \<or> next_order_id st token = Some JNull)"

definition get_next_order_id :: "env \<Rightarrow> market \<Rightarrow> json \<Rightarrow> bool \<Rightarrow> (error + json) \<times> market" where
  "get_next_order_id env st token force_sync =
     (if \<not> force_sync \<and> \<not> hashable token then (Inl TypeError, st)
      else if force_sync \<or> counter_is_none st token then
        (case api_request env st ''GET'' NEXT_ORDER_ID None
                (Some [(''accountId'', JInt (loopring_accountid st)), (''tokenSId'', token)]) False of
           (Inl e, st1) \<Rightarrow>
             (Inl (UnboundLocalError ''next_id''),
              add_log LogNextOrderIdError (add_log (LogException e) st1))
         | (Inr temp, st1) \<Rightarrow>
             (case getitem temp ''data'' of
                Inl e \<Rightarrow>
                  (Inl (UnboundLocalError ''next_id''),
                   add_log LogNextOrderIdError (add_log (LogException e) st1))
              | Inr next_id \<Rightarrow>
                  if hashable token then (Inr next_id, st1\<lparr>next_order_id := (next_order_id st1)(token \<mapsto> next_id)\<rparr>)
                  else (Inr next_id,
                        add_log LogNextOrderIdError (add_log (LogException TypeError) st1))))
      else
        (case next_order_id st token of
           None \<Rightarrow> (Inl (KeyError ''token''), st)
         | Some next_id \<Rightarrow>
             (case py_add1 next_id of
                Inl e \<Rightarrow> (Inl e, st)
              | Inr n \<Rightarrow> (Inr next_id, st\<lparr>next_order_id := (next_order_id st)(token \<mapsto> n)\<rparr>))))"

text \<open>\<open>n\<close> allocations for one token, one after the other, none forcing a resync.\<close>

fun acquire_n :: "env \<Rightarrow> market \<Rightarrow> json \<Rightarrow> nat \<Rightarrow> (error + json) list \<times> market" where
  "acquire_n env st token 0 = ([], st)"
| "acquire_n env st token (Suc n) =
     (case get_next_order_id env st token False of
        (r, st1) \<Rightarrow> (case acquire_n env st1 token n of (rs, st2) \<Rightarrow> (r # rs, st2)))"

section \<open>Quantization\<close>

definition c_get_order_price_quantum :: "market \<Rightarrow> string \<Rightarrow> error + decimal" where
  "c_get_order_price_quantum st trading_pair =
     (case trading_rules st (JStr trading_pair) of
        None \<Rightarrow> Inl (KeyError trading_pair)
      | Some rule \<Rightarrow> Inr (min_price_increment rule))"

definition c_get_order_size_quantum :: "market \<Rightarrow> string \<Rightarrow> error + decimal" where
  "c_get_order_size_quantum st trading_pair =
     (case trading_rules st (JStr trading_pair) of
        None \<Rightarrow> Inl (KeyError trading_pair)
      | Some rule \<Rightarrow> Inr (min_base_amount_increment rule))"

definition c_quantize_order_price :: "market \<Rightarrow> string \<Rightarrow> decimal \<Rightarrow> error + decimal" where
  "c_quantize_order_price st trading_pair price =
     (case c_get_order_price_quantum st trading_pair of
        Inl e \<Rightarrow> Inl e
      | Inr quantum \<Rightarrow> quantize_down price quantum)"

text \<open>
  \<^verbatim>\<open>c_quantize_order_amount\<close>; the default \<^verbatim>\<open>price = 0.0\<close> is the decimal zero
  here, and \<^verbatim>\<open>price > 0\<close> guards the notional test.
\<close>

definition c_quantize_order_amount :: "market \<Rightarrow> string \<Rightarrow> decimal \<Rightarrow> decimal \<Rightarrow> error + decimal" where
  "c_quantize_order_amount st trading_pair amount price =
     (case c_get_order_size_quantum st trading_pair of
        Inl e \<Rightarrow> Inl e
      | Inr quantum \<Rightarrow>
          (case quantize_down amount quantum of
             Inl e \<Rightarrow> Inl e
           | Inr quantized_amount \<Rightarrow>
               (case trading_rules st (JStr trading_pair) of
                  None \<Rightarrow> Inl (KeyError trading_pair)
                | Some rules \<Rightarrow>
                    if dec_less quantized_amount (min_order_size rules) then Inr s_decimal_0
                    else if dec_less s_decimal_0 price
                            \<and> dec_less (dec_mul price quantized_amount) (min_notional_size rules)
                    then Inr s_decimal_0
                    else Inr quantized_amount)))"

section \<open>Order submission\<close>

text \<open>The elements of a list display are evaluated in order; the first exception wins.\<close>

fun sequence :: "(error + 'a) list \<Rightarrow> error + 'a list" where
  "sequence [] = Inr []"
| "sequence (x # xs) =
     (case x of
        Inl e \<Rightarrow> Inl e
      | Inr v \<Rightarrow> (case sequence xs of Inl e \<Rightarrow> Inl e | Inr vs \<Rightarrow> Inr (v # vs)))"

definition order_int :: "pydict \<Rightarrow> string \<Rightarrow> error + int" where
  "order_int order k = (case map_of order k of None \<Rightarrow> Inl (KeyError k) | Some v \<Rightarrow> py_int v)"

definition order_flag :: "pydict \<Rightarrow> string \<Rightarrow> error + int" where
  "order_flag order k =
     (case map_of order k of
        None \<Rightarrow> Inl (KeyError k)
      | Some v \<Rightarrow> Inr (if v = JStr ''true'' then 1 else 0))"

definition serialize_order :: "pydict \<Rightarrow> error + int list" where
  "serialize_order order =
     sequence
       [order_int order ''exchangeId'',
        order_int order ''orderId'',
        order_int order ''accountId'',
        order_int order ''tokenSId'',
        order_int order ''tokenBId'',
        order_int order ''amountS'',
        order_int order ''amountB'',
        order_flag order ''allOrNone'',
        order_int order ''validSince'',
        order_int order ''validUntil'',
        order_int order ''maxFeeBips'',
        order_flag order ''buy'',
        order_int order ''label'']"

fun split_on :: "char \<Rightarrow> string \<Rightarrow> string list" where
  "split_on c [] = [[]]"
| "split_on c (x # xs) =
     (if x = c then [] # split_on c xs
      else (case split_on c xs of [] \<Rightarrow> [[x]] | y # ys \<Rightarrow> (x # y) # ys))"

text \<open>\<^verbatim>\<open>base, quote = trading_pair.split('-')\<close>\<close>

definition split_pair :: "string \<Rightarrow> error + string \<times> string" where
  "split_pair trading_pair =
     (case split_on CHR ''-'' trading_pair of
        [base, quote] \<Rightarrow> Inr (base, quote)
      | _ \<Rightarrow> Inl (ValueError UnpackError))"

definition new_order ::
  "market \<Rightarrow> json \<Rightarrow> int \<Rightarrow> trade_type \<Rightarrow> string \<Rightarrow> pydict \<Rightarrow> pydict" where
  "new_order st order_id validSince order_side client_order_id order_details =
     dict_updates order_details
       [(''exchangeId'', JInt (loopring_exchangeid st)),
        (''orderId'', order_id),
        (''accountId'', JInt (loopring_accountid st)),
        (''allOrNone'', JStr ''false''),
        (''validSince'', JInt validSince),
        (''validUntil'', JInt (validSince + 604800 * 5)),
        (''maxFeeBips'', JInt 63),
        (''label'', JInt 20),
        (''buy'', JStr (if order_side = BUY then ''true'' else ''false'')),
        (''clientOrderId'', JStr client_order_id)]"

text \<open>The part of \<^verbatim>\<open>place_order\<close> from the serialisation on: hash, sign, submit.\<close>

definition sign_and_submit :: "env \<Rightarrow> market \<Rightarrow> pydict \<Rightarrow> (error + json) \<times> market" where
  "sign_and_submit env st order =
     (case serialize_order order of
        Inl e \<Rightarrow> (Inl e, st)
      | Inr serialized_message \<Rightarrow>
          (let msgHash = poseidon env serialized_message;
               st1 = add_call (PoseidonCall serialized_message) st
           in case int_of_string (loopring_private_key st) of
                None \<Rightarrow> (Inl (ValueError (InvalidLiteral (loopring_private_key st))), st1)
              | Some key \<Rightarrow>
                  (case eddsa_sign env msgHash key of
                     (rx, ry, s) \<Rightarrow>
                       (let order' = dict_updates
                              [(''hash'', JStr (string_of_int msgHash)),
                               (''signatureRx'', JStr (string_of_int rx)),
                               (''signatureRy'', JStr (string_of_int ry)),
                               (''signatureS'', JStr (string_of_int s))] order
                        in api_request env (add_call (SignCall msgHash key) st1) ''POST'' ORDER_ROUTE
                             (Some order') (Some order') False))))"

definition place_order ::
  "env \<Rightarrow> market \<Rightarrow> string \<Rightarrow> string \<Rightarrow> decimal \<Rightarrow> bool \<Rightarrow> order_type \<Rightarrow> decimal
     \<Rightarrow> (error + json) \<times> market" where
  "place_order env st client_order_id trading_pair amount is_buy order_type price =
     (let order_side = (if is_buy then BUY else SELL)
      in case split_pair trading_pair of
           Inl e \<Rightarrow> (Inl e, st)
         | Inr (base, quote) \<Rightarrow>
             (case get_tokenid env base of
                Inl e \<Rightarrow> (Inl e, st)
              | Inr baseid \<Rightarrow>
                  (case get_tokenid env quote of
                     Inl e \<Rightarrow> (Inl e, st)
                   | Inr quoteid \<Rightarrow>
                       (let validSince = time_time env - 3600
                        in case sell_buy_amounts env baseid quoteid amount price order_side of
                             Inl e \<Rightarrow> (Inl e, st)
                           | Inr order_details \<Rightarrow>
                               (case map_of order_details ''tokenSId'' of
                                  None \<Rightarrow> (Inl (KeyError ''tokenSId''), st)
                                | Some token_s_id \<Rightarrow>
                                    (case get_next_order_id env st token_s_id False of
                                       (Inl e, st1) \<Rightarrow> (Inl e, st1)
                                     | (Inr order_id, st1) \<Rightarrow>
                                         sign_and_submit env st1
                                           (new_order st1 order_id validSince order_side
                                              client_order_id order_details)))))))"

definition start_tracking :: "in_flight_order \<Rightarrow> market \<Rightarrow> market" where
  "start_tracking in_flight_order st =
     st\<lparr>in_flight_orders :=
          AList.update (ifo_client_order_id in_flight_order) in_flight_order (in_flight_orders st)\<rparr>"

definition stop_tracking :: "string \<Rightarrow> market \<Rightarrow> market" where
  "stop_tracking client_order_id st =
     (if map_of (in_flight_orders st) client_order_id \<noteq> None
      then st\<lparr>in_flight_orders := AList.delete client_order_id (in_flight_orders st)\<rparr>
      else st)"

text \<open>The \<^verbatim>\<open>try\<close> block of \<^verbatim>\<open>execute_order\<close>.\<close>

definition submit_and_track ::
  "env \<Rightarrow> market \<Rightarrow> trade_type \<Rightarrow> string \<Rightarrow> string \<Rightarrow> decimal \<Rightarrow> order_type \<Rightarrow> decimal
     \<Rightarrow> (error + unit) \<times> market" where
  "submit_and_track env st order_side client_order_id trading_pair amount order_type price =
     (let created_at = time_time env
      in case place_order env st client_order_id trading_pair amount (order_side = BUY) order_type price of
           (Inl e, st1) \<Rightarrow> (Inl e, st1)
         | (Inr creation_response, st1) \<Rightarrow>
             (case creation_response of
                JObj kvs \<Rightarrow>
                  (case map_of kvs ''data'' of
                     None \<Rightarrow>
                       (case getitem creation_response ''resultInfo'' of
                          Inl e \<Rightarrow> (Inl e, st1)
                        | Inr info \<Rightarrow>
                            (case getitem info ''message'' of
                               Inl e \<Rightarrow> (Inl e, st1)
                             | Inr m \<Rightarrow> (Inl (ResponseError m), st1)))
                   | Some loopring_order \<Rightarrow>
                       (case from_loopring_order env order_side client_order_id created_at loopring_order
                               trading_pair price amount of
                          Inl e \<Rightarrow> (Inl e, st1)
                        | Inr in_flight_order \<Rightarrow>
                            (Inr (),
                             add_log (LogCreated in_flight_order client_order_id amount trading_pair)
                               (start_tracking in_flight_order st1))))
              | _ \<Rightarrow> (Inl AttributeError, st1)))"

text \<open>The \<^verbatim>\<open>except Exception\<close> handler of \<^verbatim>\<open>execute_order\<close>.\<close>

definition resync_and_fail ::
  "env \<Rightarrow> market \<Rightarrow> error \<Rightarrow> trade_type \<Rightarrow> string \<Rightarrow> string \<Rightarrow> decimal \<Rightarrow> order_type \<Rightarrow> decimal
     \<Rightarrow> (error + unit) \<times> market" where
  "resync_and_fail env st e order_side client_order_id trading_pair amount order_type price =
     (let st1 = add_log (LogException e)
                  (add_log (LogSubmitError order_side order_type amount trading_pair price) st)
      in case split_pair trading_pair of
           Inl e1 \<Rightarrow> (Inl e1, st1)
         | Inr (base, quote) \<Rightarrow>
             (case get_tokenid env (if order_side = SELL then base else quote) of
                Inl e1 \<Rightarrow> (Inl e1, st1)
              | Inr token_sell_id \<Rightarrow>
                  (case get_next_order_id env st1 token_sell_id True of
                     (Inl e1, st2) \<Rightarrow> (Inl e1, st2)
                   | (Inr _, st2) \<Rightarrow>
                       (Inr (),
                        c_trigger_event (MarketOrderFailureEvent (now env) client_order_id order_type)
                          (stop_tracking client_order_id st2)))))"

definition check_trading_rule :: "trading_rule \<Rightarrow> decimal \<Rightarrow> order_type \<Rightarrow> decimal \<Rightarrow> error + unit" where
  "check_trading_rule trading_rule amount order_type price =
     (if order_type = LIMIT \<and> \<not> supports_limit_orders trading_rule
      then Inl (ValueError LimitNotSupported)
      else if order_type = MARKET \<and> \<not> supports_market_orders trading_rule
      then Inl (ValueError MarketNotSupported)
      else if dec_less amount (min_order_size trading_rule)
      then Inl (ValueError (AmountBelowMin amount (min_order_size trading_rule)))
      else if dec_less (max_order_size trading_rule) amount
      then Inl (ValueError (AmountAboveMax amount (max_order_size trading_rule)))
      else if dec_less (dec_mul amount price) (min_notional_size trading_rule)
      then Inl (ValueError (NotionalBelowMin (dec_mul amount price) (min_notional_size trading_rule)))
      else Inr ())"

definition execute_order ::
  "env \<Rightarrow> market \<Rightarrow> trade_type \<Rightarrow> string \<Rightarrow> string \<Rightarrow> decimal \<Rightarrow> order_type \<Rightarrow> decimal
     \<Rightarrow> (error + unit) \<times> market" where
  "execute_order env st order_side client_order_id trading_pair amount order_type price =
     (case c_quantize_order_amount st trading_pair amount s_decimal_0 of
        Inl e \<Rightarrow> (Inl e, st)
      | Inr amount' \<Rightarrow>
          (case c_quantize_order_price st trading_pair price of
             Inl e \<Rightarrow> (Inl e, st)
           | Inr price' \<Rightarrow>
               (case trading_rules st (JStr trading_pair) of
                  None \<Rightarrow> (Inl (KeyError trading_pair), st)
                | Some trading_rule \<Rightarrow>
                    (case check_trading_rule trading_rule amount' order_type price' of
                       Inl e \<Rightarrow> (Inl e, st)
                     | Inr _ \<Rightarrow>
                         (case submit_and_track env st order_side client_order_id trading_pair amount' order_type price' of
                            (Inr _, st1) \<Rightarrow> (Inr (), st1)
                          | (Inl e, st1) \<Rightarrow>
                              resync_and_fail env st1 e order_side client_order_id trading_pair amount'
                                order_type price')))))"

definition is_value_error :: "error \<Rightarrow> bool" where
  "is_value_error e = (case e of ValueError _ \<Rightarrow> True | _ \<Rightarrow> False)"

definition execute_buy ::
  "env \<Rightarrow> market \<Rightarrow> string \<Rightarrow> string \<Rightarrow> decimal \<Rightarrow> order_type \<Rightarrow> decimal
     \<Rightarrow> (error + unit) \<times> market" where
  "execute_buy env st order_id trading_pair amount order_type price =
     (case execute_order env st BUY order_id trading_pair amount order_type price of
        (Inr _, st1) \<Rightarrow>
          (Inr (),
           c_trigger_event (BuyOrderCreatedEvent (now env) order_type trading_pair amount price order_id) st1)
      | (Inl e, st1) \<Rightarrow>
          if is_value_error e
          then (Inl e,
                c_trigger_event (MarketOrderFailureEvent (now env) order_id order_type)
                  (stop_tracking order_id st1))
          else (Inl e, st1))"

definition execute_sell ::
  "env \<Rightarrow> market \<Rightarrow> string \<Rightarrow> string \<Rightarrow> decimal \<Rightarrow> order_type \<Rightarrow> decimal
     \<Rightarrow> (error + unit) \<times> market" where
  "execute_sell env st order_id trading_pair amount order_type price =
     (case execute_order env st SELL order_id trading_pair amount order_type price of
        (Inr _, st1) \<Rightarrow>
          (Inr (),
           c_trigger_event (SellOrderCreatedEvent (now env) order_type trading_pair amount price order_id) st1)
      | (Inl e, st1) \<Rightarrow>
          if is_value_error e
          then (Inl e,
                c_trigger_event (MarketOrderFailureEvent (now env) order_id order_type)
                  (stop_tracking order_id st1))
          else (Inl e, st1))"

section \<open>Cancellation\<close>


definition cancel_order :: "env \<Rightarrow> market \<Rightarrow> string \<Rightarrow> (error + unit) \<times> market" where
  "cancel_order env st client_order_id =
     (let cancellation_event = OrderCancelledEvent (now env) client_order_id
      in case map_of (in_flight_orders st) client_order_id of
           None \<Rightarrow> (Inr (), c_trigger_event cancellation_event st)
         | Some in_flight_order \<Rightarrow>
             (case api_request env st ''DELETE'' ORDER_CANCEL_ROUTE None
                     (Some [(''accountId'', JInt (loopring_accountid st)),
                            (''clientOrderId'', JStr client_order_id)]) True of
                (Inr res, st1) \<Rightarrow>
                  (Inr (),
                   c_trigger_event cancellation_event
                     (stop_tracking client_order_id (add_log (LogCancelSuccess client_order_id) st1)))
              | (Inl e, st1) \<Rightarrow>
                  (Inr (), add_log (LogException e) (add_log (LogCancelFailed client_order_id) st1))))"



section \<open>Order updates from polling and from the user stream\<close>

definition c_stop_tracking_order :: "string \<Rightarrow> market \<Rightarrow> market" where
  "c_stop_tracking_order order_id st =
     (if map_of (in_flight_orders st) order_id \<noteq> None
      then st\<lparr>in_flight_orders := AList.delete order_id (in_flight_orders st)\<rparr>
      else st)"

text \<open>
  One round of the loop of \<^verbatim>\<open>_update_inflight_order\<close>. The cancellation branch names
  \<^verbatim>\<open>client_order_id\<close>, which that function does not bind.
\<close>

definition issue_event ::
  "market \<Rightarrow> in_flight_order \<Rightarrow> market_event \<times> decimal \<times> decimal \<times> decimal \<Rightarrow> (error + unit) \<times> market" where
  "issue_event st tracked_order ev =
     (case ev of
        (market_event, new_amount, new_price, new_fee) \<Rightarrow>
          (case (case market_event of
                   MEOrderCancelled \<Rightarrow> Inl (NameError ''client_order_id'')
                 | MEOrderFilled \<Rightarrow>
                     Inr (c_trigger_event
                            (OrderFilledEvent (current_timestamp st) (ifo_client_order_id tracked_order)
                               (ifo_trading_pair tracked_order) (ifo_trade_type tracked_order)
                               (ifo_order_type tracked_order) new_price new_amount
                               (quote_asset tracked_order) new_fee) st)
                 | MEOrderExpired \<Rightarrow>
                     Inr (c_trigger_event
                            (OrderExpiredEvent (current_timestamp st) (ifo_client_order_id tracked_order)) st)
                 | MEOrderFailure \<Rightarrow>
                     Inr (c_trigger_event
                            (MarketOrderFailureEvent (current_timestamp st)
                               (ifo_client_order_id tracked_order) (ifo_order_type tracked_order)) st)
                 | MEOther \<Rightarrow> Inr st) of
             Inl e \<Rightarrow> (Inl e, st)
           | Inr st1 \<Rightarrow>
               if is_done tracked_order then
                 (let st2 =
                    (if \<not> is_failure tracked_order then
                       (if ifo_trade_type tracked_order = BUY
                        then c_trigger_event (BuyOrderCompletedEvent (current_timestamp st1) tracked_order)
                               (add_log (LogCompleted BUY (ifo_client_order_id tracked_order)) st1)
                        else c_trigger_event (SellOrderCompletedEvent (current_timestamp st1) tracked_order)
                               (add_log (LogCompleted SELL (ifo_client_order_id tracked_order)) st1))
                     else if is_cancelled tracked_order then
                       (if map_of (in_flight_orders st1) (ifo_client_order_id tracked_order) \<noteq> None
                        then add_log (LogCancelSuccess (ifo_client_order_id tracked_order)) st1
                        else st1)
                     else add_log (LogFailed (ifo_client_order_id tracked_order)) st1)
                  in (Inr (), c_stop_tracking_order (ifo_client_order_id tracked_order) st2))
               else (Inr (), st1)))"

fun issue_events ::
  "market \<Rightarrow> in_flight_order \<Rightarrow> (market_event \<times> decimal \<times> decimal \<times> decimal) list
     \<Rightarrow> (error + unit) \<times> market" where
  "issue_events st tracked_order [] = (Inr (), st)"
| "issue_events st tracked_order (ev # evs) =
     (case issue_event st tracked_order ev of
        (Inl e, st1) \<Rightarrow> (Inl e, st1)
      | (Inr _, st1) \<Rightarrow> issue_events st1 tracked_order evs)"

text \<open>
  \<^verbatim>\<open>_update_inflight_order\<close>. The tracked order is the object stored in the registry
  under \<open>key\<close>; \<^verbatim>\<open>update\<close> mutates it in place, so the registry sees the new object.
\<close>

definition update_inflight_order ::
  "env \<Rightarrow> market \<Rightarrow> string \<Rightarrow> in_flight_order \<Rightarrow> json \<Rightarrow> (error + unit) \<times> market" where
  "update_inflight_order env st key tracked_order event =
     (case order_update env tracked_order event of
        Inl e \<Rightarrow> (Inl e, st)
      | Inr (tracked_order', issuable_events) \<Rightarrow>
          issue_events
            (st\<lparr>in_flight_orders := AList.update key tracked_order' (in_flight_orders st)\<rparr>)
            tracked_order' issuable_events)"

definition registry_get :: "market \<Rightarrow> json \<Rightarrow> error + in_flight_order option" where
  "registry_get st k =
     (case k of
        JStr s \<Rightarrow> Inr (map_of (in_flight_orders st) s)
      | JList _ \<Rightarrow> Inl TypeError
      | JObj _ \<Rightarrow> Inl TypeError
      | _ \<Rightarrow> Inr None)"

text \<open>
  The body of the \<^verbatim>\<open>try\<close> in \<^verbatim>\<open>_user_stream_event_listener\<close> for one message.
  On topic \<^verbatim>\<open>account\<close> the coroutine \<^verbatim>\<open>_set_balances\<close> is created and not awaited.
\<close>

definition handle_event_message :: "env \<Rightarrow> market \<Rightarrow> string \<Rightarrow> (error + unit) \<times> market" where
  "handle_event_message env st event_message =
     (case parse_json env event_message of
        Inl e \<Rightarrow> (Inl e, st)
      | Inr event \<Rightarrow>
          (case getitem event ''topic'' of
             Inl e \<Rightarrow> (Inl e, st)
           | Inr t \<Rightarrow>
               (case getitem t ''topic'' of
                  Inl e \<Rightarrow> (Inl e, st)
                | Inr topic \<Rightarrow>
                    (case getitem event ''data'' of
                       Inl e \<Rightarrow> (Inl e, st)
                     | Inr data \<Rightarrow>
                         if topic = JStr ''account'' then (Inr (), st)
                         else if topic = JStr ''order'' then
                           (case getitem data ''clientOrderId'' of
                              Inl e \<Rightarrow> (Inl e, st)
                            | Inr client_order_id \<Rightarrow>
                                (case registry_get st client_order_id of
                                   Inl e \<Rightarrow> (Inl e, st)
                                 | Inr None \<Rightarrow>
                                     (Inr (),
                                      add_log (LogEventDump event_message)
                                        (add_log (LogUnrecognizedOrder client_order_id) st))
                                 | Inr (Some tracked_order) \<Rightarrow>
                                     (case client_order_id of
                                        JStr key \<Rightarrow> update_inflight_order env st key tracked_order data
                                      | _ \<Rightarrow> (Inl TypeError, st))))
                         else if topic = JStr ''sub'' then (Inr (), st)
                         else if topic = JStr ''unsub'' then (Inr (), st)
                         else (Inr (), add_log (LogUnrecognizedTopic topic) st)))))"

text \<open>One iteration of \<^verbatim>\<open>_user_stream_event_listener\<close>: any exception is logged.\<close>

definition user_stream_event_listener_step :: "env \<Rightarrow> market \<Rightarrow> string \<Rightarrow> market" where
  "user_stream_event_listener_step env st event_message =
     (case handle_event_message env st event_message of
        (Inr _, st1) \<Rightarrow> st1
      | (Inl e, st1) \<Rightarrow> add_log (LogListenerError e) st1)"

section \<open>Trading rules\<close>













section \<open>Example collaborators\<close>

text \<open>
  A concrete environment over a given transport, and a trading rule as
  \<^verbatim>\<open>_update_trading_rules\<close> builds it, for evaluating the definitions on inputs.
\<close>

definition stub_env :: "(nat \<Rightarrow> http_request \<Rightarrow> http_outcome) \<Rightarrow> env" where
  "stub_env transport =
     \<lparr>http = transport,
      generate_auth_dict = [(''X-API-KEY'', ''key'')],
      sha256 = (\<lambda>s. length s),
      poseidon = (\<lambda>xs. sum_list xs),
      eddsa_sign = (\<lambda>h k. (h, k, h + k)),
      SNARK_SCALAR_FIELD = 97,
      time_time = 1600000000,
      py_repr = (\<lambda>j. ''[]''),
      get_tokenid = (\<lambda>s. if s = ''ETH'' then Inr (JInt 0)
                           else if s = ''USDT'' then Inr (JInt 3) else Inl (KeyError s)),
      sell_buy_amounts = (\<lambda>baseid quoteid amount price side.
         if side = SELL
         then Inr [(''tokenSId'', baseid), (''tokenBId'', quoteid),
                   (''amountS'', JInt (dec_signed amount)), (''amountB'', JInt (dec_signed price))]
         else Inr [(''tokenSId'', quoteid), (''tokenBId'', baseid),
                   (''amountS'', JInt (dec_signed price)), (''amountB'', JInt (dec_signed amount))]),
      unpad = (\<lambda>a t. case a of JInt i \<Rightarrow> Inr (Decimal (i < 0) (nat \<bar>i\<bar>) (- 2))
                               | _ \<Rightarrow> Inl (CollaboratorError ''unpad'')),
      from_loopring_order = (\<lambda>side client_order_id created_at loopring_order pair price amount.
         Inr \<lparr>ifo_client_order_id = client_order_id, exchange_order_id = loopring_order,
              ifo_trading_pair = pair, ifo_order_type = LIMIT, ifo_trade_type = side,
              base_asset = ''ETH'', quote_asset = ''USDT'', fee_asset = None,
              executed_amount_base = s_decimal_0, executed_amount_quote = s_decimal_0,
              fee_paid = s_decimal_0, is_done = False, is_failure = False, is_cancelled = False\<rparr>),
      order_update = (\<lambda>ord d. Inr (ord, [])),
      parse_json = (\<lambda>s. Inl (CollaboratorError ''json''))\<rparr>"

definition eth_usdt_rule :: trading_rule where
  "eth_usdt_rule =
     \<lparr>rule_trading_pair = JStr ''ETH-USDT'',
      min_order_size = Decimal False 1 (- 2),
      max_order_size = Decimal False 1000 0,
      min_price_increment = Decimal False 1 (- 2),
      min_base_amount_increment = Decimal False 1 (- 2),
      min_quote_amount_increment = Decimal False 1 (- 2),
      min_notional_size = Decimal False 10 0,
      supports_limit_orders = True,
      supports_market_orders = False\<rparr>"

definition example_market :: market where
  "example_market = (init_market 1 2 ''3'')\<lparr>trading_rules := [JStr ''ETH-USDT'' \<mapsto> eth_usdt_rule]\<rparr>"

definition example_order :: in_flight_order where
  "example_order =
     \<lparr>ifo_client_order_id = ''buy-ETH-USDT-1'', exchange_order_id = JStr ''0xabc'',
      ifo_trading_pair = ''ETH-USDT'', ifo_order_type = LIMIT, ifo_trade_type = BUY,
      base_asset = ''ETH'', quote_asset = ''USDT'', fee_asset = None,
      executed_amount_base = s_decimal_0, executed_amount_quote = s_decimal_0,
      fee_paid = s_decimal_0, is_done = False, is_failure = False, is_cancelled = False\<rparr>"

section \<open>Properties of the transport\<close>


lemma api_request_plain:
  "api_request env st m url data params False =
     send_request env
       (if data \<noteq> None \<and> m = ''POST'' then st
        else st\<lparr>default_headers := dict_updates (generate_auth_dict env) (default_headers st)\<rparr>)
       m url data params
       (dict_updates (generate_auth_dict env)
          (if data \<noteq> None \<and> m = ''POST'' then [(''Content-Type'', ''application/json'')]
           else default_headers st))"
  by (simp add: api_request_def Let_def)


section \<open>The nonce allocator\<close>

lemma get_next_order_id_warm:
  assumes "next_order_id st token = Some (JInt start)" and "hashable token"
  shows "get_next_order_id env st token False =
           (Inr (JInt start), st\<lparr>next_order_id := (next_order_id st)(token \<mapsto> JInt (start + 1))\<rparr>)"
  using assms by (simp add: get_next_order_id_def counter_is_none_def py_add1_def)

text \<open>
  With a stored counter and no forced resync, \<open>n\<close> allocations return
  \<open>start, start + 1, \<dots>, start + n - 1\<close>.
\<close>

lemma acquire_n_warm:
  assumes "next_order_id st token = Some (JInt start)" and "hashable token"
  shows "fst (acquire_n env st token n) = map (\<lambda>i. Inr (JInt (start + int i))) [0..<n]"
  using assms
proof (induction n arbitrary: st start)
  case 0
  then show ?case by simp
next
  case (Suc n)
  let ?st1 = "st\<lparr>next_order_id := (next_order_id st)(token \<mapsto> JInt (start + 1))\<rparr>"
  have step: "get_next_order_id env st token False = (Inr (JInt start), ?st1)"
    using Suc.prems by (rule get_next_order_id_warm)
  have "next_order_id ?st1 token = Some (JInt (start + 1))"
    by simp
  from Suc.IH [OF this Suc.prems(2)]
  have ih: "fst (acquire_n env ?st1 token n) = map (\<lambda>i. Inr (JInt (start + 1 + int i))) [0..<n]" .
  have "[0..<Suc n] = 0 # [Suc 0..<Suc n]"
    by (rule upt_conv_Cons) simp
  also have "[Suc 0..<Suc n] = map Suc [0..<n]"
    by (simp only: map_Suc_upt)
  finally have "[0..<Suc n] = 0 # map Suc [0..<n]" .
  then show ?case
    using step ih by (simp add: split_beta comp_def del: upt_Suc)
qed

text \<open>
  C1. On the cold path the allocator stores the remote id as it is and returns it, so the
  next allocation returns the same id: with no counter for token 2 and the exchange
  answering 5, two allocations both return 5.
\<close>

theorem cold_path_repeats_order_id:
  "fst (acquire_n (stub_env (\<lambda>n req. HttpResponse 200 (JObj [(''data'', JInt 5)])))
          (init_market 1 2 ''3'') (JInt 2) 2) = [Inr (JInt 5), Inr (JInt 5)]"
  by (simp add: numeral_2_eq_2 get_next_order_id_def counter_is_none_def hashable_def
        api_request_plain send_request_def stub_env_def init_market_def http_count_def
        add_call_def getitem_def py_add1_def Let_def)




section \<open>Signed requests\<close>

lemma send_request_calls:
  "calls (snd (send_request env st m url data params headers)) =
     calls st @ [HttpCall \<lparr>req_method = m, req_url = API_REST_ENDPOINT @ url, req_params = params,
                            req_body = data, req_headers = headers\<rparr>]"
  by (simp add: send_request_def Let_def add_call_def add_log_def split: http_outcome.splits)

lemma api_request_secure:
  assumes "sign_request env
             (if data \<noteq> None \<and> m = ''POST'' then st
              else st\<lparr>default_headers := dict_updates (generate_auth_dict env) (default_headers st)\<rparr>)
             m url params = (Inr signature, st2)"
  shows "api_request env st m url data params True =
           send_request env
             (if data \<noteq> None \<and> m = ''POST'' then st2
              else st2\<lparr>default_headers := AList.update ''X-API-SIG'' signature
                         (dict_updates (generate_auth_dict env) (default_headers st))\<rparr>)
             m url data params
             (AList.update ''X-API-SIG'' signature
                (dict_updates (generate_auth_dict env)
                   (if data \<noteq> None \<and> m = ''POST'' then [(''Content-Type'', ''application/json'')]
                    else default_headers st)))"
proof (cases data)
  case None
  with assms show ?thesis
    by (simp add: api_request_def Let_def)
next
  case (Some d)
  with assms show ?thesis
    by (cases "m = ''POST''") (simp_all add: api_request_def Let_def)
qed

text \<open>
  C5. A secure request with method \<open>M\<close>, route \<open>url\<close> and parameters \<open>P\<close> hashes the
  string \<open>M & quote(U) & quote(k1=v1&k2=v2...)\<close>, \<open>U\<close> being the full URL, and signs the
  SHA-256 digest of that string reduced modulo the scalar field, before the request is sent.
\<close>

theorem secure_request_canonical_string:
  assumes key: "int_of_string (loopring_private_key st) = Some key"
      and field: "SNARK_SCALAR_FIELD env \<noteq> 0"
      and canon: "canon = M @ ''&'' @ urllib_quote (API_REST_ENDPOINT @ url) @ ''&''
                    @ urllib_quote (join ''&'' (map (\<lambda>(k, v). k @ ''='' @ py_str env v) P))"
  shows "encode_request env (API_REST_ENDPOINT @ url) M P = canon
       \<and> (\<exists>req. calls (snd (api_request env st M url data (Some P) True))
                  = calls st @ [Sha256Call canon,
                                SignCall (int (sha256 env canon) mod SNARK_SCALAR_FIELD env) key,
                                HttpCall req]
                \<and> req_method req = M \<and> req_url req = API_REST_ENDPOINT @ url
                \<and> req_params req = Some P)"
proof -
  let ?h = "int (sha256 env canon) mod SNARK_SCALAR_FIELD env"
  let ?st1 = "if data \<noteq> None \<and> M = ''POST'' then st
              else st\<lparr>default_headers := dict_updates (generate_auth_dict env) (default_headers st)\<rparr>"
  have enc: "encode_request env (API_REST_ENDPOINT @ url) M P = canon"
    by (simp add: encode_request_def join_def canon Let_def)
  obtain rx ry s where sig: "eddsa_sign env ?h key = (rx, ry, s)"
    by (cases "eddsa_sign env ?h key") auto
  have key1: "int_of_string (loopring_private_key ?st1) = Some key"
    using key by simp
  have sign: "sign_request env ?st1 M url (Some P) =
       (Inr (join '','' [string_of_int rx, string_of_int ry, string_of_int s]),
        add_call (SignCall ?h key) (add_call (Sha256Call canon) ?st1))"
    using key1 field sig by (simp add: sign_request_def enc Let_def del: split_paired_All)
  have "\<exists>headers. calls (snd (api_request env st M url data (Some P) True))
      = calls st @ [Sha256Call canon, SignCall ?h key,
          HttpCall \<lparr>req_method = M, req_url = API_REST_ENDPOINT @ url, req_params = Some P,
                     req_body = data, req_headers = headers\<rparr>]"
    by (simp add: api_request_secure [OF sign] send_request_calls add_call_def)
  then obtain headers where "calls (snd (api_request env st M url data (Some P) True))
      = calls st @ [Sha256Call canon, SignCall ?h key,
          HttpCall \<lparr>req_method = M, req_url = API_REST_ENDPOINT @ url, req_params = Some P,
                     req_body = data, req_headers = headers\<rparr>]" ..
  then have "\<exists>req. calls (snd (api_request env st M url data (Some P) True))
                  = calls st @ [Sha256Call canon, SignCall ?h key, HttpCall req]
                \<and> req_method req = M \<and> req_url req = API_REST_ENDPOINT @ url
                \<and> req_params req = Some P"
    by (intro exI [of _ "\<lparr>req_method = M, req_url = API_REST_ENDPOINT @ url, req_params = Some P,
                     req_body = data, req_headers = headers\<rparr>"]) simp
  then show ?thesis
    using enc by simp
qed

text \<open>The cancellation request of order \<open>buy-ETH-USDT-1\<close>, with the example collaborators.\<close>

theorem secure_request_canonical_string_witness:
  "encode_request (stub_env (\<lambda>n req. HttpResponse 200 JNull)) (API_REST_ENDPOINT @ ORDER_CANCEL_ROUTE)
     ''DELETE'' [(''accountId'', JInt 1), (''clientOrderId'', JStr ''buy-ETH-USDT-1'')]
     = ''DELETE&https%3A%2F%2Fapi.loopring.io%2Fapi%2Fv2%2Forders&accountId%3D1%26clientOrderId%3Dbuy-ETH-USDT-1''
   \<and> (\<exists>req. calls (snd (api_request (stub_env (\<lambda>n req. HttpResponse 200 JNull)) (init_market 1 2 ''3'')
                    ''DELETE'' ORDER_CANCEL_ROUTE None
                    (Some [(''accountId'', JInt 1), (''clientOrderId'', JStr ''buy-ETH-USDT-1'')]) True))
           = calls (init_market 1 2 ''3'') @
             [Sha256Call ''DELETE&https%3A%2F%2Fapi.loopring.io%2Fapi%2Fv2%2Forders&accountId%3D1%26clientOrderId%3Dbuy-ETH-USDT-1'',
              SignCall (int (sha256 (stub_env (\<lambda>n req. HttpResponse 200 JNull))
                          ''DELETE&https%3A%2F%2Fapi.loopring.io%2Fapi%2Fv2%2Forders&accountId%3D1%26clientOrderId%3Dbuy-ETH-USDT-1'')
                        mod SNARK_SCALAR_FIELD (stub_env (\<lambda>n req. HttpResponse 200 JNull))) 3,
              HttpCall req]
         \<and> req_method req = ''DELETE'' \<and> req_url req = API_REST_ENDPOINT @ ORDER_CANCEL_ROUTE
         \<and> req_params req = Some [(''accountId'', JInt 1), (''clientOrderId'', JStr ''buy-ETH-USDT-1'')])"
proof (rule secure_request_canonical_string)
  show "int_of_string (loopring_private_key (init_market 1 2 ''3'')) = Some 3"
    by (simp add: init_market_def int_of_string_def digit_val_def)
  show "SNARK_SCALAR_FIELD (stub_env (\<lambda>n req. HttpResponse 200 JNull)) \<noteq> 0"
    by (simp add: stub_env_def)
  show "''DELETE&https%3A%2F%2Fapi.loopring.io%2Fapi%2Fv2%2Forders&accountId%3D1%26clientOrderId%3Dbuy-ETH-USDT-1''
      = ''DELETE'' @ ''&'' @ urllib_quote (API_REST_ENDPOINT @ ORDER_CANCEL_ROUTE) @ ''&''
        @ urllib_quote (join ''&'' (map (\<lambda>(k, v). k @ ''='' @ py_str (stub_env (\<lambda>n req. HttpResponse 200 JNull)) v)
             [(''accountId'', JInt 1), (''clientOrderId'', JStr ''buy-ETH-USDT-1'')]))"
    by (simp add: urllib_quote_def quote_char_def unreserved_def join_def py_str_def
          string_of_int_def string_of_nat.simps API_REST_ENDPOINT_def ORDER_CANCEL_ROUTE_def)
qed

section \<open>The canonical order record\<close>

text \<open>
  C4. When the order holds the thirteen fields (each convertible by \<^verbatim>\<open>int\<close>), the
  serialisation is the list of those thirteen integers in the fixed order, the two flags
  being 1 for the string \<^verbatim>\<open>true\<close> and 0 otherwise; and that list is what
  \<^verbatim>\<open>place_order\<close> hashes and signs.
\<close>

theorem serialize_order_preimage:
  assumes "order_int order ''exchangeId'' = Inr exchangeId"
      and "order_int order ''orderId'' = Inr orderId"
      and "order_int order ''accountId'' = Inr accountId"
      and "order_int order ''tokenSId'' = Inr tokenSId"
      and "order_int order ''tokenBId'' = Inr tokenBId"
      and "order_int order ''amountS'' = Inr amountS"
      and "order_int order ''amountB'' = Inr amountB"
      and "map_of order ''allOrNone'' = Some allOrNone"
      and "order_int order ''validSince'' = Inr validSince"
      and "order_int order ''validUntil'' = Inr validUntil"
      and "order_int order ''maxFeeBips'' = Inr maxFeeBips"
      and "map_of order ''buy'' = Some buy"
      and "order_int order ''label'' = Inr label"
      and "preimage = [exchangeId, orderId, accountId, tokenSId, tokenBId, amountS, amountB,
                       (if allOrNone = JStr ''true'' then 1 else 0), validSince, validUntil,
                       maxFeeBips, (if buy = JStr ''true'' then 1 else 0), label]"
  shows "serialize_order order = Inr preimage \<and> length preimage = 13
       \<and> (\<exists>rest. calls (snd (sign_and_submit env st order)) = calls st @ PoseidonCall preimage # rest)"
proof -
  have ser: "serialize_order order = Inr preimage"
    using assms by (simp add: serialize_order_def order_flag_def)
  have len: "length preimage = 13"
    using assms(14) by simp
  have "\<exists>rest. calls (snd (sign_and_submit env st order)) = calls st @ PoseidonCall preimage # rest"
  proof (cases "int_of_string (loopring_private_key st)")
    case None
    then show ?thesis
      by (simp add: sign_and_submit_def ser Let_def add_call_def)
  next
    case (Some key)
    obtain rx ry s where sig: "eddsa_sign env (poseidon env preimage) key = (rx, ry, s)"
      by (cases "eddsa_sign env (poseidon env preimage) key") auto
    show ?thesis
      using Some sig
      by (simp add: sign_and_submit_def ser Let_def api_request_plain send_request_calls add_call_def)
  qed
  with ser len show ?thesis by simp
qed

text \<open>
  The order \<^verbatim>\<open>place_order\<close> builds for a buy on account 7 of exchange 2, with
  order id 5 and the amounts the token configuration returned.
\<close>

theorem serialize_order_preimage_witness:
  "serialize_order
     (new_order (init_market 7 2 ''3'') (JInt 5) 1599996400 BUY ''buy-ETH-USDT-1''
        [(''tokenSId'', JInt 3), (''tokenBId'', JInt 0), (''amountS'', JInt 200), (''amountB'', JInt 1)])
     = Inr [2, 5, 7, 3, 0, 200, 1, 0, 1599996400, 1603020400, 63, 1, 20]
   \<and> length [2, 5, 7, 3, 0, 200, 1, 0, 1599996400, 1603020400, 63, 1, 20 :: int] = 13
   \<and> (\<exists>rest. calls (snd (sign_and_submit (stub_env (\<lambda>n req. HttpResponse 200 JNull)) (init_market 7 2 ''3'')
                 (new_order (init_market 7 2 ''3'') (JInt 5) 1599996400 BUY ''buy-ETH-USDT-1''
                    [(''tokenSId'', JInt 3), (''tokenBId'', JInt 0), (''amountS'', JInt 200),
                     (''amountB'', JInt 1)])))
        = calls (init_market 7 2 ''3'')
          @ PoseidonCall [2, 5, 7, 3, 0, 200, 1, 0, 1599996400, 1603020400, 63, 1, 20] # rest)"
  by (rule serialize_order_preimage [where allOrNone = "JStr ''false''" and buy = "JStr ''true''"])
     (simp_all add: new_order_def dict_updates_def order_int_def py_int_def init_market_def)

section \<open>Quantization\<close>








text \<open>The comparison of the model is the comparison of the values.\<close>

lemma dec_less_iff: "dec_less a b \<longleftrightarrow> dec_val a < dec_val b"
proof -
  let ?m = "min (dexp a) (dexp b)"
  have split: "(10::real) powi e = 10 ^ nat (e - ?m) * 10 powi ?m" if "?m \<le> e" for e
  proof -
    have e: "e = int (nat (e - ?m)) + ?m"
      using that by simp
    have "(10::real) powi (int (nat (e - ?m)) + ?m) = 10 powi int (nat (e - ?m)) * 10 powi ?m"
      by (rule power_int_add) simp
    also have "\<dots> = 10 ^ nat (e - ?m) * 10 powi ?m"
      by (simp only: power_int_of_nat)
    finally show ?thesis
      using e by simp
  qed
  have pos: "(0::real) < 10 powi ?m"
    by simp
  have va: "dec_val a = of_int (dec_signed a * 10 ^ nat (dexp a - ?m)) * 10 powi ?m"
    using split [of "dexp a"] by (simp add: dec_val_def)
  have vb: "dec_val b = of_int (dec_signed b * 10 ^ nat (dexp b - ?m)) * 10 powi ?m"
    using split [of "dexp b"] by (simp add: dec_val_def)
  have "dec_val a < dec_val b \<longleftrightarrow>
      (of_int (dec_signed a * 10 ^ nat (dexp a - ?m)) :: real)
        < of_int (dec_signed b * 10 ^ nat (dexp b - ?m))"
    by (simp only: va vb mult_less_cancel_right_pos [OF pos])
  also have "\<dots> \<longleftrightarrow> dec_less a b"
    by (simp only: of_int_less_iff dec_less_def Let_def)
  finally show ?thesis by simp
qed




section \<open>Order submission\<close>

lemma stop_tracking_frame:
  "calls (stop_tracking k st) = calls st"
  "next_order_id (stop_tracking k st) = next_order_id st"
  "events (stop_tracking k st) = events st"
  by (simp_all add: stop_tracking_def)

lemma execute_order_rejected:
  assumes "c_quantize_order_amount st trading_pair amount s_decimal_0 = Inr amount'"
      and "c_quantize_order_price st trading_pair price = Inr price'"
      and "trading_rules st (JStr trading_pair) = Some rule"
      and "check_trading_rule rule amount' order_type price' = Inl e"
  shows "execute_order env st order_side client_order_id trading_pair amount order_type price = (Inl e, st)"
  using assms by (simp add: execute_order_def)

text \<open>
  C3, as the code has it. A buy whose quantized amount is below the (positive) minimum
  order size does not return the zero amount: \<^verbatim>\<open>execute_buy\<close> raises a ValueError and
  emits one failure event for the order; nothing is hashed, signed or sent, and no order
  id is consumed.
\<close>

theorem buy_below_minimum_raises:
  assumes rule: "trading_rules st (JStr trading_pair) = Some rule"
      and amount: "quantize_down amount (min_base_amount_increment rule) = Inr q"
      and below: "dec_less q (min_order_size rule)"
      and positive: "dec_less s_decimal_0 (min_order_size rule)"
      and price: "c_quantize_order_price st trading_pair price = Inr price'"
  shows "\<exists>v. execute_buy env st order_id trading_pair amount order_type price =
           (Inl (ValueError v),
            c_trigger_event (MarketOrderFailureEvent (now env) order_id order_type)
              (stop_tracking order_id st))
       \<and> calls (snd (execute_buy env st order_id trading_pair amount order_type price)) = calls st
       \<and> next_order_id (snd (execute_buy env st order_id trading_pair amount order_type price))
           = next_order_id st
       \<and> events (snd (execute_buy env st order_id trading_pair amount order_type price))
           = events st @ [MarketOrderFailureEvent (now env) order_id order_type]"
proof -
  have sentinel: "c_quantize_order_amount st trading_pair amount s_decimal_0 = Inr s_decimal_0"
    using rule amount below
    by (simp add: c_quantize_order_amount_def c_get_order_size_quantum_def)
  have "\<exists>v. check_trading_rule rule s_decimal_0 order_type price' = Inl (ValueError v)"
    using positive by (simp add: check_trading_rule_def)
  then obtain v where check: "check_trading_rule rule s_decimal_0 order_type price' = Inl (ValueError v)" ..
  have "execute_order env st BUY order_id trading_pair amount order_type price = (Inl (ValueError v), st)"
    using sentinel price rule check by (rule execute_order_rejected)
  then have run: "execute_buy env st order_id trading_pair amount order_type price =
           (Inl (ValueError v),
            c_trigger_event (MarketOrderFailureEvent (now env) order_id order_type)
              (stop_tracking order_id st))"
    by (simp add: execute_buy_def is_value_error_def)
  show ?thesis
    by (rule exI [of _ v]) (simp add: run c_trigger_event_def stop_tracking_frame)
qed

theorem buy_below_minimum_raises_witness:
  "\<exists>v. execute_buy (stub_env (\<lambda>n req. HttpResponse 200 JNull)) example_market ''buy-ETH-USDT-1''
           ''ETH-USDT'' (Decimal False 1 (- 3)) LIMIT (Decimal False 20012 (- 2)) =
           (Inl (ValueError v),
            c_trigger_event (MarketOrderFailureEvent (now (stub_env (\<lambda>n req. HttpResponse 200 JNull)))
                               ''buy-ETH-USDT-1'' LIMIT)
              (stop_tracking ''buy-ETH-USDT-1'' example_market))
       \<and> calls (snd (execute_buy (stub_env (\<lambda>n req. HttpResponse 200 JNull)) example_market
                  ''buy-ETH-USDT-1'' ''ETH-USDT'' (Decimal False 1 (- 3)) LIMIT (Decimal False 20012 (- 2))))
           = calls example_market
       \<and> next_order_id (snd (execute_buy (stub_env (\<lambda>n req. HttpResponse 200 JNull)) example_market
                  ''buy-ETH-USDT-1'' ''ETH-USDT'' (Decimal False 1 (- 3)) LIMIT (Decimal False 20012 (- 2))))
           = next_order_id example_market
       \<and> events (snd (execute_buy (stub_env (\<lambda>n req. HttpResponse 200 JNull)) example_market
                  ''buy-ETH-USDT-1'' ''ETH-USDT'' (Decimal False 1 (- 3)) LIMIT (Decimal False 20012 (- 2))))
           = events example_market
             @ [MarketOrderFailureEvent (now (stub_env (\<lambda>n req. HttpResponse 200 JNull)))
                  ''buy-ETH-USDT-1'' LIMIT]"
proof (rule buy_below_minimum_raises)
  show "trading_rules example_market (JStr ''ETH-USDT'') = Some eth_usdt_rule"
    by (simp add: example_market_def)
  show "quantize_down (Decimal False 1 (- 3)) (min_base_amount_increment eth_usdt_rule)
          = Inr (Decimal False 0 (- 2))"
    by (simp add: eth_usdt_rule_def quantize_down_def rescale_down_def adjusted_def prec_def
          Let_def ndigits.simps)
  show "dec_less (Decimal False 0 (- 2)) (min_order_size eth_usdt_rule)"
    by (simp add: eth_usdt_rule_def dec_less_def dec_signed_def)
  show "dec_less s_decimal_0 (min_order_size eth_usdt_rule)"
    by (simp add: eth_usdt_rule_def dec_less_def dec_signed_def s_decimal_0_def)
  show "c_quantize_order_price example_market ''ETH-USDT'' (Decimal False 20012 (- 2))
          = Inr (Decimal False 20012 (- 2))"
    by (simp add: c_quantize_order_price_def c_get_order_price_quantum_def example_market_def
          eth_usdt_rule_def quantize_down_def rescale_down_def adjusted_def prec_def Let_def
          ndigits.simps)
qed

text \<open>
  A buy of 0.001 at minimum order size 0.01: the amount quantizes to the zero amount, and
  the submission raises instead of returning it.
\<close>

theorem buy_below_minimum_not_returned:
  "c_quantize_order_amount example_market ''ETH-USDT'' (Decimal False 1 (- 3)) s_decimal_0
     = Inr s_decimal_0
   \<and> fst (execute_buy (stub_env (\<lambda>n req. HttpResponse 200 JNull)) example_market ''buy-ETH-USDT-1''
            ''ETH-USDT'' (Decimal False 1 (- 3)) LIMIT (Decimal False 20012 (- 2)))
     = Inl (ValueError (AmountBelowMin s_decimal_0 (Decimal False 1 (- 2))))"
  by (simp add: execute_buy_def execute_order_def c_quantize_order_amount_def
        c_get_order_size_quantum_def c_quantize_order_price_def c_get_order_price_quantum_def
        example_market_def eth_usdt_rule_def quantize_down_def rescale_down_def adjusted_def
        prec_def Let_def ndigits.simps dec_less_def dec_signed_def s_decimal_0_def
        check_trading_rule_def is_value_error_def)

text \<open>
  When the submission is rejected and the forced resync succeeds, the handler emits the
  one failure event (and \<^verbatim>\<open>execute_buy\<close>, returning normally, the creation event).
\<close>

lemma rejected_submission_emits_failure_event:
  "events (snd (execute_buy
          (stub_env (\<lambda>n req. if req_method req = ''GET'' then HttpResponse 200 (JObj [(''data'', JInt 6)])
                                else HttpRaises ''rejected''))
          (example_market\<lparr>next_order_id := [JInt 3 \<mapsto> JInt 5]\<rparr>) ''buy-ETH-USDT-1'' ''ETH-USDT''
          (Decimal False 100 (- 2)) LIMIT (Decimal False 20012 (- 2))))
     = [MarketOrderFailureEvent 1600000000000 ''buy-ETH-USDT-1'' LIMIT,
        BuyOrderCreatedEvent 1600000000000 LIMIT ''ETH-USDT'' (Decimal False 100 (- 2))
          (Decimal False 20012 (- 2)) ''buy-ETH-USDT-1'']"
  by (simp add: execute_buy_def execute_order_def c_quantize_order_amount_def
        c_get_order_size_quantum_def c_quantize_order_price_def c_get_order_price_quantum_def
        example_market_def init_market_def eth_usdt_rule_def quantize_down_def rescale_down_def
        adjusted_def prec_def Let_def ndigits.simps dec_less_def dec_signed_def s_decimal_0_def
        dec_mul_def dec_fix_def check_trading_rule_def is_value_error_def
        submit_and_track_def place_order_def split_pair_def stub_env_def
        get_next_order_id_def counter_is_none_def hashable_def py_add1_def
        sign_and_submit_def serialize_order_def order_int_def order_flag_def py_int_def
        new_order_def dict_updates_def int_of_string_def digit_val_def
        api_request_plain send_request_def add_call_def add_log_def http_count_def
        resync_and_fail_def getitem_def stop_tracking_def c_trigger_event_def now_def)

text \<open>
  C6. The exchange cannot be reached: the order is signed, the POST raises, the handler's
  forced resync raises in turn, and the unbound-variable error leaves \<^verbatim>\<open>execute_buy\<close>
  before the failure event is emitted.
\<close>

theorem failed_submission_without_failure_event:
  "fst (execute_buy (stub_env (\<lambda>n req. HttpRaises ''connection lost''))
          (example_market\<lparr>next_order_id := [JInt 3 \<mapsto> JInt 5]\<rparr>) ''buy-ETH-USDT-1'' ''ETH-USDT''
          (Decimal False 100 (- 2)) LIMIT (Decimal False 20012 (- 2)))
     = Inl (UnboundLocalError ''next_id'')
   \<and> events (snd (execute_buy (stub_env (\<lambda>n req. HttpRaises ''connection lost''))
          (example_market\<lparr>next_order_id := [JInt 3 \<mapsto> JInt 5]\<rparr>) ''buy-ETH-USDT-1'' ''ETH-USDT''
          (Decimal False 100 (- 2)) LIMIT (Decimal False 20012 (- 2)))) = []
   \<and> http_count (snd (execute_buy (stub_env (\<lambda>n req. HttpRaises ''connection lost''))
          (example_market\<lparr>next_order_id := [JInt 3 \<mapsto> JInt 5]\<rparr>) ''buy-ETH-USDT-1'' ''ETH-USDT''
          (Decimal False 100 (- 2)) LIMIT (Decimal False 20012 (- 2)))) = 2"
  by (simp add: execute_buy_def execute_order_def c_quantize_order_amount_def
        c_get_order_size_quantum_def c_quantize_order_price_def c_get_order_price_quantum_def
        example_market_def init_market_def eth_usdt_rule_def quantize_down_def rescale_down_def
        adjusted_def prec_def Let_def ndigits.simps dec_less_def dec_signed_def s_decimal_0_def
        dec_mul_def dec_fix_def check_trading_rule_def is_value_error_def
        submit_and_track_def place_order_def split_pair_def stub_env_def
        get_next_order_id_def counter_is_none_def hashable_def py_add1_def
        sign_and_submit_def serialize_order_def order_int_def order_flag_def py_int_def
        new_order_def dict_updates_def int_of_string_def digit_val_def
        api_request_plain send_request_def add_call_def add_log_def http_count_def
        resync_and_fail_def)

section \<open>Trading rules\<close>









section \<open>The user stream\<close>

text \<open>
  C8. A message on topic \<^verbatim>\<open>order\<close> whose client order id is not in the registry is
  logged and dropped: the registry, the emitted events and the calls are as before.
\<close>

theorem unrecognized_order_message_dropped:
  assumes "parse_json env event_message = Inr event"
      and "getitem event ''topic'' = Inr t"
      and "getitem t ''topic'' = Inr (JStr ''order'')"
      and "getitem event ''data'' = Inr data"
      and "getitem data ''clientOrderId'' = Inr client_order_id"
      and "registry_get st client_order_id = Inr None"
  shows "user_stream_event_listener_step env st event_message
           = st\<lparr>log := log st @ [LogUnrecognizedOrder client_order_id, LogEventDump event_message]\<rparr>
       \<and> in_flight_orders (user_stream_event_listener_step env st event_message) = in_flight_orders st
       \<and> events (user_stream_event_listener_step env st event_message) = events st
       \<and> calls (user_stream_event_listener_step env st event_message) = calls st"
proof -
  have "handle_event_message env st event_message
          = (Inr (), add_log (LogEventDump event_message)
                       (add_log (LogUnrecognizedOrder client_order_id) st))"
    using assms by (simp add: handle_event_message_def)
  then have "user_stream_event_listener_step env st event_message
           = st\<lparr>log := log st @ [LogUnrecognizedOrder client_order_id, LogEventDump event_message]\<rparr>"
    by (simp add: user_stream_event_listener_step_def add_log_def)
  then show ?thesis by simp
qed

theorem unrecognized_order_message_dropped_witness:
  "user_stream_event_listener_step
     ((stub_env (\<lambda>n req. HttpResponse 200 JNull))
        \<lparr>parse_json := \<lambda>s. Inr (JObj [(''topic'', JObj [(''topic'', JStr ''order'')]),
                                       (''data'', JObj [(''clientOrderId'', JStr ''sell-ETH-USDT-9'')])])\<rparr>)
     (start_tracking example_order example_market) ''{}''
     = (start_tracking example_order example_market)
         \<lparr>log := log (start_tracking example_order example_market)
                  @ [LogUnrecognizedOrder (JStr ''sell-ETH-USDT-9''), LogEventDump ''{}'']\<rparr>
   \<and> in_flight_orders (user_stream_event_listener_step
     ((stub_env (\<lambda>n req. HttpResponse 200 JNull))
        \<lparr>parse_json := \<lambda>s. Inr (JObj [(''topic'', JObj [(''topic'', JStr ''order'')]),
                                       (''data'', JObj [(''clientOrderId'', JStr ''sell-ETH-USDT-9'')])])\<rparr>)
     (start_tracking example_order example_market) ''{}'')
     = in_flight_orders (start_tracking example_order example_market)
   \<and> events (user_stream_event_listener_step
     ((stub_env (\<lambda>n req. HttpResponse 200 JNull))
        \<lparr>parse_json := \<lambda>s. Inr (JObj [(''topic'', JObj [(''topic'', JStr ''order'')]),
                                       (''data'', JObj [(''clientOrderId'', JStr ''sell-ETH-USDT-9'')])])\<rparr>)
     (start_tracking example_order example_market) ''{}'')
     = events (start_tracking example_order example_market)
   \<and> calls (user_stream_event_listener_step
     ((stub_env (\<lambda>n req. HttpResponse 200 JNull))
        \<lparr>parse_json := \<lambda>s. Inr (JObj [(''topic'', JObj [(''topic'', JStr ''order'')]),
                                       (''data'', JObj [(''clientOrderId'', JStr ''sell-ETH-USDT-9'')])])\<rparr>)
     (start_tracking example_order example_market) ''{}'')
     = calls (start_tracking example_order example_market)"
proof (rule unrecognized_order_message_dropped)
  show "parse_json ((stub_env (\<lambda>n req. HttpResponse 200 JNull))
        \<lparr>parse_json := \<lambda>s. Inr (JObj [(''topic'', JObj [(''topic'', JStr ''order'')]),
                                       (''data'', JObj [(''clientOrderId'', JStr ''sell-ETH-USDT-9'')])])\<rparr>) ''{}''
      = Inr (JObj [(''topic'', JObj [(''topic'', JStr ''order'')]),
                   (''data'', JObj [(''clientOrderId'', JStr ''sell-ETH-USDT-9'')])])"
    by simp
  show "getitem (JObj [(''topic'', JObj [(''topic'', JStr ''order'')]),
                   (''data'', JObj [(''clientOrderId'', JStr ''sell-ETH-USDT-9'')])]) ''topic''
      = Inr (JObj [(''topic'', JStr ''order'')])"
    by (simp add: getitem_def)
  show "getitem (JObj [(''topic'', JStr ''order'')]) ''topic'' = Inr (JStr ''order'')"
    by (simp add: getitem_def)
  show "getitem (JObj [(''topic'', JObj [(''topic'', JStr ''order'')]),
                   (''data'', JObj [(''clientOrderId'', JStr ''sell-ETH-USDT-9'')])]) ''data''
      = Inr (JObj [(''clientOrderId'', JStr ''sell-ETH-USDT-9'')])"
    by (simp add: getitem_def)
  show "getitem (JObj [(''clientOrderId'', JStr ''sell-ETH-USDT-9'')]) ''clientOrderId''
      = Inr (JStr ''sell-ETH-USDT-9'')"
    by (simp add: getitem_def)
  show "registry_get (start_tracking example_order example_market) (JStr ''sell-ETH-USDT-9'') = Inr None"
    by (simp add: registry_get_def start_tracking_def example_order_def example_market_def
          init_market_def)
qed

section \<open>Cancelling all orders\<close>

lemma cancel_order_returns:
  "fst (cancel_order env st client_order_id) = Inr ()"
  by (simp add: cancel_order_def Let_def split: option.splits prod.splits sum.splits)




end
